theory Spec2Isabelle
  imports Complex_Main
begin

section \<open>Python values and exceptions\<close>

text \<open>
  The metric script \<^verbatim>\<open>compute_metric.py\<close> is embedded function by function.
  Python floats are modelled by \<^typ>\<open>real\<close>: the arithmetic is exact, rounding,
  infinities and NaN are outside the model. Every \<^verbatim>\<open>raise\<close> of the script and
  every exception of a Python built-in the script relies on is a value of
  \<open>py_exn\<close>; a computation that may raise returns \<open>py_exn + 'a\<close>.
\<close>

datatype msg =
    OutletPatchNotFound "string list"
  | OutletBlockNotFound
  | CH4NotFoundAtOutlet "string list" "string list"
  | IntegrateCH4Failed
  | IntegrateAreaFailed
  | InvalidOutletArea real
  | CH4NotInIntegratedData
  | VolumeNotInIntegratedData
  | InvalidVolume real
  | TNotInCellDataInformation
  | TNotInIntegratedData
  | UnknownMetric string
  | NoTimeSteps
  | CouldNotConvertToFloat string
  | MinOfEmptySequence

datatype py_exn =
    ValueError msg
  | TypeError
  | KeyError string
  | IndexError
  | AttributeError
  | ZeroDivisionError
  | FileNotFoundError
  | FoamFileError
  | ReaderError
  | SystemExit int

text \<open>\<^verbatim>\<open>except Exception\<close> catches every class above but \<^verbatim>\<open>SystemExit\<close>,
  which derives from \<^verbatim>\<open>BaseException\<close> only.\<close>

fun is_Exception :: "py_exn \<Rightarrow> bool" where
  "is_Exception (SystemExit _) = False"
| "is_Exception _ = True"

definition and_then :: "py_exn + 'a \<Rightarrow> ('a \<Rightarrow> py_exn + 'b) \<Rightarrow> py_exn + 'b" where
  "and_then r f = (case r of Inl e \<Rightarrow> Inl e | Inr x \<Rightarrow> f x)"

text \<open>
  What foamlib hands back for an entry of a field file: a number, a string, a Python
  list or tuple, a numpy array, or a (sub-)dictionary with string keys.
\<close>

datatype py_value =
    PyNum real
  | PyStr string
  | PyList "py_value list"
  | PyArray "py_value list"
  | PyDict "(string \<times> py_value) list"

text \<open>The interpreter: whether foamlib could be imported, and what \<^verbatim>\<open>float(s)\<close>
  yields on a string (\<open>None\<close>: it raises \<^verbatim>\<open>ValueError\<close>).\<close>

record pyenv =
  FOAMLIB_AVAILABLE :: bool
  float_of_str :: "string \<Rightarrow> real option"

subsection \<open>Strings\<close>

fun startswith :: "string \<Rightarrow> string \<Rightarrow> bool" where
  "startswith s [] = True"
| "startswith [] (p # ps) = False"
| "startswith (c # cs) (p # ps) = (c = p \<and> startswith cs ps)"

text \<open>\<^verbatim>\<open>needle in hay\<close> on two strings.\<close>

fun str_contains :: "string \<Rightarrow> string \<Rightarrow> bool" where
  "str_contains needle [] = (needle = [])"
| "str_contains needle (c # cs) = (startswith (c # cs) needle \<or> str_contains needle cs)"

text \<open>\<^verbatim>\<open>str.lower\<close> on the ASCII letters; block names are ASCII.\<close>

definition lower_char :: "char \<Rightarrow> char" where
  "lower_char c =
     (case map_of (zip ''ABCDEFGHIJKLMNOPQRSTUVWXYZ'' ''abcdefghijklmnopqrstuvwxyz'') c of
        None \<Rightarrow> c
      | Some l \<Rightarrow> l)"

definition lower :: "string \<Rightarrow> string" where
  "lower s = map lower_char s"

subsection \<open>Built-ins on values\<close>

text \<open>\<^verbatim>\<open>hasattr(value, '__iter__') and not isinstance(value, str)\<close>.\<close>

fun is_iterable_non_str :: "py_value \<Rightarrow> bool" where
  "is_iterable_non_str (PyNum _) = False"
| "is_iterable_non_str (PyStr _) = False"
| "is_iterable_non_str (PyList _) = True"
| "is_iterable_non_str (PyArray _) = True"
| "is_iterable_non_str (PyDict _) = True"

fun py_len :: "py_value \<Rightarrow> py_exn + nat" where
  "py_len (PyNum _) = Inl TypeError"
| "py_len (PyStr s) = Inr (length s)"
| "py_len (PyList xs) = Inr (length xs)"
| "py_len (PyArray xs) = Inr (length xs)"
| "py_len (PyDict kvs) = Inr (length kvs)"

text \<open>\<^verbatim>\<open>value[0]\<close>. The dictionaries here have string keys, so the key 0 is absent.\<close>

fun py_getitem0 :: "py_value \<Rightarrow> py_exn + py_value" where
  "py_getitem0 (PyNum _) = Inl TypeError"
| "py_getitem0 (PyStr []) = Inl IndexError"
| "py_getitem0 (PyStr (c # _)) = Inr (PyStr [c])"
| "py_getitem0 (PyList []) = Inl IndexError"
| "py_getitem0 (PyList (x # _)) = Inr x"
| "py_getitem0 (PyArray []) = Inl IndexError"
| "py_getitem0 (PyArray (x # _)) = Inr x"
| "py_getitem0 (PyDict _) = Inl (KeyError ''0'')"

text \<open>\<^verbatim>\<open>container[key]\<close> with a string key.\<close>

fun py_getitem :: "py_value \<Rightarrow> string \<Rightarrow> py_exn + py_value" where
  "py_getitem (PyDict kvs) k = (case map_of kvs k of None \<Rightarrow> Inl (KeyError k) | Some v \<Rightarrow> Inr v)"
| "py_getitem (PyArray _) k = Inl IndexError"
| "py_getitem _ k = Inl TypeError"

text \<open>\<^verbatim>\<open>key in container\<close> with a string key.\<close>

fun py_contains :: "string \<Rightarrow> py_value \<Rightarrow> py_exn + bool" where
  "py_contains k (PyDict kvs) = Inr (map_of kvs k \<noteq> None)"
| "py_contains k (PyStr s) = Inr (str_contains k s)"
| "py_contains k (PyList xs) = Inr (List.member xs (PyStr k))"
| "py_contains k (PyArray xs) = Inr (List.member xs (PyStr k))"
| "py_contains k (PyNum _) = Inl TypeError"

text \<open>The single item of a numpy array with exactly one element in all.\<close>

fun array_item :: "py_value \<Rightarrow> real option" where
  "array_item (PyNum r) = Some r"
| "array_item (PyArray [x]) = array_item x"
| "array_item _ = None"

text \<open>
  \<^verbatim>\<open>float(value)\<close>: a number converts, a string is parsed, a list, a tuple and a
  dictionary raise \<^verbatim>\<open>TypeError\<close>, and so does a numpy array unless it holds exactly
  one element.
\<close>

fun py_float :: "pyenv \<Rightarrow> py_value \<Rightarrow> py_exn + real" where
  "py_float env (PyNum r) = Inr r"
| "py_float env (PyStr s) =
     (case float_of_str env s of
        None \<Rightarrow> Inl (ValueError (CouldNotConvertToFloat s))
      | Some r \<Rightarrow> Inr r)"
| "py_float env (PyList _) = Inl TypeError"
| "py_float env (PyArray xs) =
     (case array_item (PyArray xs) of None \<Rightarrow> Inl TypeError | Some r \<Rightarrow> Inr r)"
| "py_float env (PyDict _) = Inl TypeError"

section \<open>Reading a boundary condition\<close>

text \<open>
  The case directory as \<^verbatim>\<open>read_boundary_condition\<close> sees it: for a relative path
  (its components), \<open>None\<close> when nothing exists there, otherwise what
  \<^verbatim>\<open>FoamFile(path)\<close> gives on first access: the parsed top-level dictionary, or a
  failure (a directory, an unreadable or malformed file).
\<close>

datatype foam_file = Parsed "(string \<times> py_value) list" | Unreadable

type_synonym case_dir = "string list \<Rightarrow> foam_file option"

definition exists_path :: "case_dir \<Rightarrow> string list \<Rightarrow> bool" where
  "exists_path d p = (d p \<noteq> None)"

text \<open>\<^verbatim>\<open>foam_file[key]\<close> on the file at a path that exists.\<close>

definition foam_getitem :: "case_dir \<Rightarrow> string list \<Rightarrow> string \<Rightarrow> py_exn + py_value" where
  "foam_getitem d p k =
     (case d p of
        None \<Rightarrow> Inl FoamFileError
      | Some Unreadable \<Rightarrow> Inl FoamFileError
      | Some (Parsed kvs) \<Rightarrow> py_getitem (PyDict kvs) k)"

text \<open>Lines 55 to 57: the field file, \<^verbatim>\<open>0.orig\<close> before \<^verbatim>\<open>0\<close>.\<close>

definition field_file :: "case_dir \<Rightarrow> string \<Rightarrow> string list" where
  "field_file d field_name =
     (if exists_path d [''0.orig'', field_name] then [''0.orig'', field_name]
      else [''0'', field_name])"

text \<open>
  Lines 55 to 79, the lookup inside the \<^verbatim>\<open>try\<close>: \<open>Inr None\<close> is one of the three
  \<^verbatim>\<open>return fallback_value\<close>, \<open>Inr (Some value)\<close> the resolved \<^verbatim>\<open>value\<close>, and
  \<open>Inl e\<close> an exception raised on the way.
\<close>

definition lookup_value :: "case_dir \<Rightarrow> string \<Rightarrow> string \<Rightarrow> py_exn + py_value option" where
  "lookup_value d field_name patch_name =
     (let ff = field_file d field_name in
      if \<not> exists_path d ff then Inr None
      else
        and_then (foam_getitem d ff ''boundaryField'') (\<lambda>boundary_field.
        and_then (py_contains patch_name boundary_field) (\<lambda>has_patch.
        if \<not> has_patch then Inr None
        else
          and_then (py_getitem boundary_field patch_name) (\<lambda>patch_data.
          and_then (py_contains ''value'' patch_data) (\<lambda>has_value.
          if has_value then and_then (py_getitem patch_data ''value'') (\<lambda>v. Inr (Some v))
          else
            and_then (py_contains ''inletValue'' patch_data) (\<lambda>has_inlet_value.
            if has_inlet_value
            then and_then (py_getitem patch_data ''inletValue'') (\<lambda>v. Inr (Some v))
            else Inr None))))))"

text \<open>
  Lines 82 to 87. The result \<open>None\<close> is Python's \<^verbatim>\<open>None\<close>: an iterable of length 0
  reaches the end of the function body without a \<^verbatim>\<open>return\<close>.
\<close>

definition uniform_value :: "pyenv \<Rightarrow> py_value \<Rightarrow> py_exn + real option" where
  "uniform_value env v =
     (if is_iterable_non_str v then
        and_then (py_len v) (\<lambda>n.
        if n > 0 then
          (if n = 1
           then and_then (py_getitem0 v) (\<lambda>x. and_then (py_float env x) (\<lambda>r. Inr (Some r)))
           else and_then (py_float env v) (\<lambda>r. Inr (Some r)))
        else Inr None)
      else and_then (py_float env v) (\<lambda>r. Inr (Some r)))"

text \<open>The body of the \<^verbatim>\<open>try\<close>, lines 55 to 87.\<close>

definition read_boundary_condition_try ::
  "pyenv \<Rightarrow> case_dir \<Rightarrow> string \<Rightarrow> string \<Rightarrow> real \<Rightarrow> py_exn + real option" where
  "read_boundary_condition_try env d field_name patch_name fallback_value =
     and_then (lookup_value d field_name patch_name) (\<lambda>found.
       case found of
         None \<Rightarrow> Inr (Some fallback_value)
       | Some v \<Rightarrow> uniform_value env v)"

text \<open>
  Lines 38 to 90. \<open>Inr (Some x)\<close> returns the float \<open>x\<close>, \<open>Inr None\<close> returns
  \<^verbatim>\<open>None\<close>, \<open>Inl e\<close> lets the exception \<open>e\<close> escape.
\<close>

definition read_boundary_condition ::
  "pyenv \<Rightarrow> case_dir \<Rightarrow> string \<Rightarrow> string \<Rightarrow> real \<Rightarrow> py_exn + real option" where
  "read_boundary_condition env d field_name patch_name fallback_value =
     (if \<not> FOAMLIB_AVAILABLE env then Inr (Some fallback_value)
      else
        (case read_boundary_condition_try env d field_name patch_name fallback_value of
           Inl e \<Rightarrow> if is_Exception e then Inr (Some fallback_value) else Inl e
         | Inr r \<Rightarrow> Inr r))"

text \<open>Lines 93 to 109: the dictionary with the keys \<^verbatim>\<open>CH4_inlet\<close> and \<^verbatim>\<open>T_inlet\<close>.\<close>

record inlet_conditions =
  CH4_inlet :: "real option"
  T_inlet :: "real option"

definition get_inlet_conditions :: "pyenv \<Rightarrow> case_dir \<Rightarrow> py_exn + inlet_conditions" where
  "get_inlet_conditions env d =
     and_then (read_boundary_condition env d ''CH4'' ''inletFuel'' 0.1561) (\<lambda>ch4_inlet.
     and_then (read_boundary_condition env d ''T'' ''inletAir'' 300.0) (\<lambda>t_inlet.
     Inr \<lparr>CH4_inlet = ch4_inlet, T_inlet = t_inlet\<rparr>))"

section \<open>The loaded case\<close>

text \<open>
  What the script reads from ParaView and VTK. A data set has its cell and point arrays
  (a name and the values, in the order of \<^verbatim>\<open>GetArrayName\<close>) and the single output
  row of \<^verbatim>\<open>vtkIntegrateAttributes\<close> on it, per array name. A block of the
  fetched tree is a data set or a multi-block of children, each with its meta data
  (absent, without a name, or with one) and its block (which may be \<^verbatim>\<open>None\<close>).
\<close>

type_synonym field_data = "(string \<times> real list) list"

record integrated_data =
  int_cell :: "string \<Rightarrow> real option"
  int_point :: "string \<Rightarrow> real option"

record data_set =
  CellData :: field_data
  PointData :: field_data
  IntegrateAttributes :: integrated_data

datatype meta_data = NoMetaData | MetaData "string option"

datatype vtk_object =
    DataSet data_set
  | MultiBlock "(meta_data \<times> vtk_object option) list"

text \<open>
  The case reader after \<^verbatim>\<open>UpdatePipeline\<close> at the selected time: its
  \<^verbatim>\<open>MeshRegions\<close> property, what \<^verbatim>\<open>servermanager.Fetch\<close> returns for it, the
  fetched output of \<^verbatim>\<open>IntegrateVariables\<close> on it, and the range of component 0
  of each array of its cell data information.
\<close>

record case_reader =
  MeshRegions :: "string list"
  Fetch :: vtk_object
  IntegrateVariables :: integrated_data
  CellDataInformation :: "string \<Rightarrow> (real \<times> real) option"

subsection \<open>Arithmetic that may raise\<close>

text \<open>An operand read from the boundary conditions may be \<^verbatim>\<open>None\<close>.\<close>

definition py_truediv :: "real \<Rightarrow> real option \<Rightarrow> py_exn + real" where
  "py_truediv a b =
     (case b of
        None \<Rightarrow> Inl TypeError
      | Some y \<Rightarrow> if y = 0 then Inl ZeroDivisionError else Inr (a / y))"

definition py_sub :: "real \<Rightarrow> real option \<Rightarrow> py_exn + real" where
  "py_sub a b = (case b of None \<Rightarrow> Inl TypeError | Some y \<Rightarrow> Inr (a - y))"

section \<open>Combustion efficiency\<close>

text \<open>The name of a block: \<^verbatim>\<open>"unnamed"\<close> without meta data; a meta data object
  without a name gives \<^verbatim>\<open>None\<close>, on which \<^verbatim>\<open>.lower()\<close> raises.\<close>

definition block_name_lower :: "meta_data \<Rightarrow> py_exn + string" where
  "block_name_lower m =
     (case m of
        NoMetaData \<Rightarrow> Inr (lower ''unnamed'')
      | MetaData None \<Rightarrow> Inl AttributeError
      | MetaData (Some n) \<Rightarrow> Inr (lower n))"

text \<open>Lines 159 to 164: the first sub-block whose name contains \<^verbatim>\<open>outlet\<close>.\<close>

fun find_outlet_sub :: "(meta_data \<times> vtk_object option) list \<Rightarrow> py_exn + vtk_object option" where
  "find_outlet_sub [] = Inr None"
| "find_outlet_sub ((m, sub_block) # rest) =
     and_then (block_name_lower m) (\<lambda>sub_name.
       if str_contains ''outlet'' sub_name then Inr sub_block else find_outlet_sub rest)"

text \<open>
  Lines 149 to 166: a top-level block whose name contains the region name ends the
  search; otherwise the sub-blocks of a multi-block are searched, and a block found there
  ends the search (a VTK object is true).
\<close>

fun find_outlet_block ::
  "string \<Rightarrow> (meta_data \<times> vtk_object option) list \<Rightarrow> py_exn + vtk_object option" where
  "find_outlet_block outlet_block_name [] = Inr None"
| "find_outlet_block outlet_block_name ((m, block) # rest) =
     and_then (block_name_lower m) (\<lambda>block_name.
       if str_contains (lower outlet_block_name) block_name then Inr block
       else
         (case block of
            Some (MultiBlock subs) \<Rightarrow>
              and_then (find_outlet_sub subs) (\<lambda>found.
                case found of
                  Some b \<Rightarrow> Inr (Some b)
                | None \<Rightarrow> find_outlet_block outlet_block_name rest)
          | _ \<Rightarrow> find_outlet_block outlet_block_name rest))"

text \<open>Lines 125 to 169.\<close>

definition locate_outlet :: "case_reader \<Rightarrow> py_exn + vtk_object" where
  "locate_outlet cr =
     (let blocks = MeshRegions cr in
      case find (\<lambda>block. str_contains ''outlet'' (lower block)) blocks of
        None \<Rightarrow> Inl (ValueError (OutletPatchNotFound blocks))
      | Some outlet_block_name \<Rightarrow>
          (case Fetch cr of
             DataSet _ \<Rightarrow> Inl AttributeError
           | MultiBlock children \<Rightarrow>
               and_then (find_outlet_block outlet_block_name children) (\<lambda>outlet_block.
                 case outlet_block of
                   None \<Rightarrow> Inl (ValueError OutletBlockNotFound)
                 | Some b \<Rightarrow> Inr b)))"

text \<open>\<^verbatim>\<open>GetArray(name)\<close> in the cell data, then in the point data.\<close>

definition get_array :: "('a \<Rightarrow> 'b option) \<Rightarrow> ('a \<Rightarrow> 'b option) \<Rightarrow> 'a \<Rightarrow> 'b option" where
  "get_array cell point name = (case cell name of None \<Rightarrow> point name | Some a \<Rightarrow> Some a)"

text \<open>Lines 172 to 211: the integrated fuel value and the area of the outlet.\<close>

definition integrate_outlet :: "vtk_object \<Rightarrow> py_exn + real \<times> real" where
  "integrate_outlet outlet_block =
     (case outlet_block of
        MultiBlock _ \<Rightarrow> Inl AttributeError
      | DataSet ds \<Rightarrow>
          (case get_array (map_of (CellData ds)) (map_of (PointData ds)) ''CH4'' of
             None \<Rightarrow>
               Inl (ValueError (CH4NotFoundAtOutlet (map fst (CellData ds)) (map fst (PointData ds))))
           | Some ch4_array \<Rightarrow>
               (let integrated = IntegrateAttributes ds in
                case get_array (int_cell integrated) (int_point integrated) ''CH4'' of
                  None \<Rightarrow> Inl (ValueError IntegrateCH4Failed)
                | Some ch4_integrated \<Rightarrow>
                    (case get_array (int_cell integrated) (int_point integrated) ''Area'' of
                       None \<Rightarrow> Inl (ValueError IntegrateAreaFailed)
                     | Some area \<Rightarrow> Inr (ch4_integrated, area)))))"

text \<open>Lines 213 to 222.\<close>

definition efficiency_of :: "real \<Rightarrow> real \<Rightarrow> real option \<Rightarrow> py_exn + real" where
  "efficiency_of ch4_integrated area ch4_inlet =
     (if area \<le> 0 then Inl (ValueError (InvalidOutletArea area))
      else
        and_then (py_truediv ch4_integrated (Some area)) (\<lambda>ch4_outlet.
        and_then (py_truediv ch4_outlet ch4_inlet) (\<lambda>q.
        Inr (1.0 - q))))"

text \<open>Lines 112 to 222.\<close>

definition get_combustion_efficiency :: "pyenv \<Rightarrow> case_reader \<Rightarrow> case_dir \<Rightarrow> py_exn + real" where
  "get_combustion_efficiency env cr d =
     and_then (get_inlet_conditions env d) (\<lambda>inlet_conditions.
     let ch4_inlet = CH4_inlet inlet_conditions in
     and_then (locate_outlet cr) (\<lambda>outlet_block.
     and_then (integrate_outlet outlet_block) (\<lambda>(ch4_integrated, area).
     efficiency_of ch4_integrated area ch4_inlet)))"

section \<open>Domain average of the fuel\<close>

text \<open>Lines 230 to 274.\<close>

definition get_ch4_domain_average :: "pyenv \<Rightarrow> case_reader \<Rightarrow> case_dir \<Rightarrow> py_exn + real" where
  "get_ch4_domain_average env cr d =
     (let cell_data = int_cell (IntegrateVariables cr) in
      case cell_data ''CH4'' of
        None \<Rightarrow> Inl (ValueError CH4NotInIntegratedData)
      | Some ch4_integrated \<Rightarrow>
          (case cell_data ''Volume'' of
             None \<Rightarrow> Inl (ValueError VolumeNotInIntegratedData)
           | Some volume \<Rightarrow>
               if volume \<le> 0 then Inl (ValueError (InvalidVolume volume))
               else py_truediv ch4_integrated (Some volume)))"

section \<open>Pattern factor and temperature rise\<close>

text \<open>
  Lines 288 to 322 of \<^verbatim>\<open>get_pattern_factor\<close>, which lines 351 to 385 of
  \<^verbatim>\<open>get_temperature_rise_efficiency\<close> repeat word for word: \<open>T_max\<close> and \<open>T_avg\<close>.
\<close>

definition interior_temperature :: "case_reader \<Rightarrow> py_exn + real \<times> real" where
  "interior_temperature cr =
     (case CellDataInformation cr ''T'' of
        None \<Rightarrow> Inl (ValueError TNotInCellDataInformation)
      | Some T_range \<Rightarrow>
          (let T_max = snd T_range; cell_data = int_cell (IntegrateVariables cr) in
           case cell_data ''T'' of
             None \<Rightarrow> Inl (ValueError TNotInIntegratedData)
           | Some T_integrated \<Rightarrow>
               (case cell_data ''Volume'' of
                  None \<Rightarrow> Inl (ValueError VolumeNotInIntegratedData)
                | Some volume \<Rightarrow>
                    if volume \<le> 0 then Inl (ValueError (InvalidVolume volume))
                    else
                      and_then (py_truediv T_integrated (Some volume)) (\<lambda>T_avg.
                      Inr (T_max, T_avg)))))"

text \<open>Lines 277 to 337.\<close>

definition get_pattern_factor :: "pyenv \<Rightarrow> case_reader \<Rightarrow> case_dir \<Rightarrow> py_exn + real" where
  "get_pattern_factor env cr d =
     and_then (interior_temperature cr) (\<lambda>(T_max, T_avg).
     and_then (get_inlet_conditions env d) (\<lambda>inlet_conditions.
     let T_in = T_inlet inlet_conditions in
     and_then (py_sub T_avg T_in) (\<lambda>denominator.
     if denominator \<le> 0 then Inr 999.0
     else py_truediv (T_max - T_avg) (Some denominator))))"

text \<open>Lines 340 to 399.\<close>

definition get_temperature_rise_efficiency ::
  "pyenv \<Rightarrow> case_reader \<Rightarrow> case_dir \<Rightarrow> py_exn + real" where
  "get_temperature_rise_efficiency env cr d =
     and_then (interior_temperature cr) (\<lambda>(T_max, T_avg).
     and_then (get_inlet_conditions env d) (\<lambda>inlet_conditions.
     let T_in = T_inlet inlet_conditions in
     and_then (py_sub T_max T_in) (\<lambda>denominator.
     if denominator \<le> 0 then Inr 0.0
     else
       and_then (py_sub T_avg T_in) (\<lambda>numerator.
       py_truediv numerator (Some denominator)))))"

section \<open>The entry point\<close>

text \<open>The table \<^verbatim>\<open>metrics\<close> of lines 406 to 411.\<close>

definition metrics ::
  "(string \<times> (pyenv \<Rightarrow> case_reader \<Rightarrow> case_dir \<Rightarrow> py_exn + real)) list" where
  "metrics =
     [(''combustion_efficiency'', get_combustion_efficiency),
      (''ch4_domain_average'', get_ch4_domain_average),
      (''pattern_factor'', get_pattern_factor),
      (''temperature_rise'', get_temperature_rise_efficiency)]"

text \<open>\<^verbatim>\<open>s.split(sep)\<close> with a separator of one character.\<close>

fun split_on :: "char \<Rightarrow> string \<Rightarrow> string list" where
  "split_on sep [] = [[]]"
| "split_on sep (c # cs) =
     (if c = sep then [] # split_on sep cs
      else (case split_on sep cs of [] \<Rightarrow> [[c]] | p # ps \<Rightarrow> (c # p) # ps))"

text \<open>Lines 423 to 429: the optional fourth element of \<^verbatim>\<open>sys.argv\<close>.\<close>

definition parse_time_arg :: "pyenv \<Rightarrow> string list \<Rightarrow> py_exn + real option" where
  "parse_time_arg env args =
     (if length args = 4 then
        (let time_arg = args ! 3 in
         if startswith time_arg ''--time='' then
           (case split_on CHR ''='' time_arg of
              _ # piece # _ \<Rightarrow> and_then (py_float env (PyStr piece)) (\<lambda>r. Inr (Some r))
            | _ \<Rightarrow> Inl IndexError)
         else Inl (SystemExit 1))
      else Inr None)"

text \<open>\<^verbatim>\<open>min(xs, key=key)\<close>: the first element with the least key.\<close>

fun min_from :: "('a \<Rightarrow> real) \<Rightarrow> 'a \<Rightarrow> 'a list \<Rightarrow> 'a" where
  "min_from key best [] = best"
| "min_from key best (x # xs) = min_from key (if key x < key best then x else best) xs"

definition py_min_key :: "('a \<Rightarrow> real) \<Rightarrow> 'a list \<Rightarrow> py_exn + 'a" where
  "py_min_key key xs = (case xs of
        [] \<Rightarrow> Inl (ValueError MinOfEmptySequence)
      | x # rest \<Rightarrow> Inr (min_from key x rest))"

text \<open>What the script writes to standard error, line by line.\<close>

datatype err_line =
    UsageLine
  | AvailableMetricsLine
  | OptionalTimeLine
  | WarningLine real real
  | ErrorLine py_exn
  | TracebackHeader
  | Traceback py_exn

text \<open>
  Lines 466 to 477: the time to load and the lines written to standard error on the
  way.
\<close>

definition select_time :: "real list \<Rightarrow> real option \<Rightarrow> py_exn + real \<times> err_line list" where
  "select_time time_values requested_time =
     (case requested_time of
        Some rt \<Rightarrow>
          and_then (py_min_key (\<lambda>t. \<bar>t - rt\<bar>) time_values) (\<lambda>closest_time.
            Inr (closest_time,
                 if \<bar>closest_time - rt\<bar> > 1 / 10 ^ 6 then [WarningLine rt closest_time] else []))
      | None \<Rightarrow>
          (if time_values = [] then Inl IndexError else Inr (last time_values, [])))"

text \<open>
  The reader \<^verbatim>\<open>OpenFOAMReader\<close> builds: its time steps, and the loaded case after
  \<^verbatim>\<open>UpdatePipeline(time=t)\<close>.
\<close>

record reader =
  TimestepValues :: "real list"
  UpdatePipeline :: "real \<Rightarrow> case_reader"

text \<open>
  One run of the script: the arguments, the interpreter, and what the run finds on
  disk and in ParaView. \<open>OpenFOAMReader\<close> takes whether the case is decomposed;
  \<open>None\<close> is a failure of ParaView while the reader is set up.
\<close>

record run =
  argv :: "string list"
  interpreter :: pyenv
  case_dir_exists :: bool
  processor_dirs :: "string list"
  case_foam_exists :: bool
  OpenFOAMReader :: "bool \<Rightarrow> reader option"
  case_files :: case_dir

text \<open>What a run leaves behind.\<close>

record outcome =
  stdout :: "real list"
  stderr :: "err_line list"
  touched_case_foam :: bool
  exit_code :: int

definition quiet :: "bool \<Rightarrow> outcome" where
  "quiet touched = \<lparr>stdout = [], stderr = [], touched_case_foam = touched, exit_code = 0\<rparr>"

text \<open>
  Lines 405 to 486, the body of the \<^verbatim>\<open>try\<close>: what has been written when it
  ends, and how it ends.
\<close>

definition main_try :: "run \<Rightarrow> outcome \<times> (py_exn + unit)" where
  "main_try w =
     (let n = length (argv w) in
      if n < 3 \<or> n > 4 then
        ((quiet False)\<lparr>stderr := [UsageLine, AvailableMetricsLine, OptionalTimeLine]\<rparr>,
         Inl (SystemExit 1))
      else
        (let metric_name = argv w ! 2 in
         case parse_time_arg (interpreter w) (argv w) of
           Inl e \<Rightarrow> (quiet False, Inl e)
         | Inr requested_time \<Rightarrow>
             if \<not> case_dir_exists w then (quiet False, Inl FileNotFoundError)
             else
               (case map_of metrics metric_name of
                  None \<Rightarrow> (quiet False, Inl (ValueError (UnknownMetric metric_name)))
                | Some metric \<Rightarrow>
                    (let decomposed = (processor_dirs w \<noteq> []);
                         touched = (\<not> decomposed \<and> \<not> case_foam_exists w) in
                     case OpenFOAMReader w decomposed of
                       None \<Rightarrow> (quiet touched, Inl ReaderError)
                     | Some case_reader \<Rightarrow>
                         (let time_values = TimestepValues case_reader in
                          if time_values = [] then (quiet touched, Inl (ValueError NoTimeSteps))
                          else
                            (case select_time time_values requested_time of
                               Inl e \<Rightarrow> (quiet touched, Inl e)
                             | Inr (use_time, warning) \<Rightarrow>
                                 (case metric (interpreter w)
                                         (UpdatePipeline case_reader use_time) (case_files w) of
                                    Inl e \<Rightarrow> ((quiet touched)\<lparr>stderr := warning\<rparr>, Inl e)
                                  | Inr v \<Rightarrow>
                                      ((quiet touched)\<lparr>stderr := warning, stdout := [v]\<rparr>,
                                       Inr ()))))))))"

text \<open>
  Lines 402 to 492: the handler catches what derives from \<^verbatim>\<open>Exception\<close>, writes
  the error line and the trace and exits with 1; \<^verbatim>\<open>SystemExit\<close> passes it and ends
  the process with its code.
\<close>

definition main :: "run \<Rightarrow> outcome" where
  "main w =
     (case main_try w of
        (out, Inr _) \<Rightarrow> out
      | (out, Inl (SystemExit code)) \<Rightarrow> out\<lparr>exit_code := code\<rparr>
      | (out, Inl e) \<Rightarrow>
          out\<lparr>stderr := stderr out @ [ErrorLine e, TracebackHeader, Traceback e],
              exit_code := 1\<rparr>)"

section \<open>Auxiliary notions and sample cases\<close>

text \<open>A computation that raises nothing but what \<^verbatim>\<open>except Exception\<close> catches.\<close>

definition only_exceptions :: "py_exn + 'a \<Rightarrow> bool" where
  "only_exceptions r = (case r of Inl e \<Rightarrow> is_Exception e | Inr _ \<Rightarrow> True)"

text \<open>An interpreter with foamlib, in which no string converts to a float.\<close>

definition env0 :: pyenv where
  "env0 = \<lparr>FOAMLIB_AVAILABLE = True, float_of_str = (\<lambda>s. None)\<rparr>"

text \<open>A case directory whose only file is \<^verbatim>\<open>0/<field>\<close>, with the given
  \<^verbatim>\<open>boundaryField\<close>.\<close>

definition dir_of :: "string \<Rightarrow> (string \<times> py_value) list \<Rightarrow> case_dir" where
  "dir_of field_name patches =
     (\<lambda>p. if p = [''0'', field_name] then Some (Parsed [(''boundaryField'', PyDict patches)])
          else None)"

text \<open>An outlet patch with the fuel in its cell data, whose integration gives the
  fuel value \<open>ch4\<close> over the area \<open>area\<close>; and a data set without arrays.\<close>

definition outlet_data :: "real \<Rightarrow> real \<Rightarrow> data_set" where
  "outlet_data ch4 area =
     \<lparr>CellData = [(''CH4'', [0.02, 0.02])], PointData = [],
      IntegrateAttributes =
        \<lparr>int_cell = map_of [(''CH4'', ch4), (''Area'', area)], int_point = (\<lambda>n. None)\<rparr>\<rparr>"

definition empty_data :: data_set where
  "empty_data =
     \<lparr>CellData = [], PointData = [],
      IntegrateAttributes = \<lparr>int_cell = (\<lambda>n. None), int_point = (\<lambda>n. None)\<rparr>\<rparr>"

text \<open>
  A loaded case as the OpenFOAM reader lays it out: the mesh regions the entry point
  asks for, the interior block and a \<^verbatim>\<open>boundary\<close> block holding the two inlets and
  the outlet, the integrated cell data of the interior, and the range of \<^verbatim>\<open>T\<close>.
\<close>

definition combustor ::
  "real \<Rightarrow> real \<Rightarrow> (string \<times> real) list \<Rightarrow> (real \<times> real) option \<Rightarrow> case_reader" where
  "combustor ch4 area interior T_range =
     \<lparr>MeshRegions = [''internalMesh'', ''patch/inletAir'', ''patch/inletFuel'', ''patch/outlet''],
      Fetch = MultiBlock
        [(MetaData (Some ''internalMesh''), Some (DataSet empty_data)),
         (MetaData (Some ''boundary''), Some (MultiBlock
            [(MetaData (Some ''inletAir''), Some (DataSet empty_data)),
             (MetaData (Some ''inletFuel''), Some (DataSet empty_data)),
             (MetaData (Some ''outlet''), Some (DataSet (outlet_data ch4 area)))]))],
      IntegrateVariables = \<lparr>int_cell = map_of interior, int_point = (\<lambda>n. None)\<rparr>,
      CellDataInformation = (\<lambda>n. if n = ''T'' then T_range else None)\<rparr>"

text \<open>The exceptions of the structural checks: a \<^verbatim>\<open>ValueError\<close> of the script, or
  an attribute missing on a VTK object.\<close>

definition structural :: "py_exn \<Rightarrow> bool" where
  "structural e = (e = AttributeError \<or> (\<exists>m. e = ValueError m))"

text \<open>A run with the given arguments on a case directory that exists, in which
  ParaView fails to set the reader up.\<close>

definition cli :: "string list \<Rightarrow> run" where
  "cli args =
     \<lparr>argv = args, interpreter = env0, case_dir_exists = True, processor_dirs = [],
      case_foam_exists = True, OpenFOAMReader = (\<lambda>decomposed. None),
      case_files = (\<lambda>p. None)\<rparr>"

section \<open>Exceptions that the handlers catch\<close>

lemma only_exceptions_Inr [simp]: "only_exceptions (Inr x)"
  by (simp add: only_exceptions_def)

lemma only_exceptions_Inl [simp]: "only_exceptions (Inl e) = is_Exception e"
  by (simp add: only_exceptions_def)

lemma only_exceptions_and_then:
  "only_exceptions r \<Longrightarrow> (\<And>x. only_exceptions (f x)) \<Longrightarrow> only_exceptions (and_then r f)"
  by (cases r) (simp_all add: and_then_def)

lemma only_exceptions_py_getitem [simp]: "only_exceptions (py_getitem v k)"
  by (cases v) (simp_all split: option.splits)

lemma only_exceptions_py_contains [simp]: "only_exceptions (py_contains k v)"
  by (cases v) simp_all

lemma only_exceptions_py_len [simp]: "only_exceptions (py_len v)"
  by (cases v) simp_all

lemma only_exceptions_py_getitem0 [simp]: "only_exceptions (py_getitem0 v)"
  by (induction v rule: py_getitem0.induct) simp_all

lemma only_exceptions_py_float [simp]: "only_exceptions (py_float env v)"
  by (cases v) (simp_all split: option.splits)

lemma only_exceptions_foam_getitem [simp]: "only_exceptions (foam_getitem d p k)"
  by (simp add: foam_getitem_def split: option.splits foam_file.splits)

lemma only_exceptions_lookup_value: "only_exceptions (lookup_value d f p)"
  unfolding lookup_value_def Let_def
  by (auto intro!: only_exceptions_and_then)

lemma only_exceptions_uniform_value: "only_exceptions (uniform_value env v)"
  unfolding uniform_value_def
  by (auto intro!: only_exceptions_and_then)

lemma only_exceptions_try:
  "only_exceptions (read_boundary_condition_try env d f p fb)"
  unfolding read_boundary_condition_try_def
  by (auto intro!: only_exceptions_and_then only_exceptions_lookup_value
      only_exceptions_uniform_value split: option.splits)

lemma read_boundary_condition_cases:
  "read_boundary_condition env d f p fb =
     (if \<not> FOAMLIB_AVAILABLE env then Inr (Some fb)
      else case read_boundary_condition_try env d f p fb of
             Inl e \<Rightarrow> Inr (Some fb) | Inr r \<Rightarrow> Inr r)"
  using only_exceptions_try [of env d f p fb]
  by (simp add: read_boundary_condition_def only_exceptions_def split: sum.splits)

lemma read_boundary_condition_total:
  "\<exists>r. read_boundary_condition env d f p fb = Inr r"
  by (simp add: read_boundary_condition_cases split: sum.splits)

section \<open>The boundary-condition reader is lenient\<close>

lemma lookup_value_dict:
  assumes "foam_getitem d (field_file d f) ''boundaryField'' = Inr (PyDict bf)"
  shows "lookup_value d f p =
     (case map_of bf p of
        None \<Rightarrow> Inr None
      | Some patch_data \<Rightarrow>
          and_then (py_contains ''value'' patch_data) (\<lambda>has_value.
          if has_value then and_then (py_getitem patch_data ''value'') (\<lambda>v. Inr (Some v))
          else
            and_then (py_contains ''inletValue'' patch_data) (\<lambda>has_inlet_value.
            if has_inlet_value
            then and_then (py_getitem patch_data ''inletValue'') (\<lambda>v. Inr (Some v))
            else Inr None)))"
proof -
  from assms have "exists_path d (field_file d f)"
    by (auto simp: foam_getitem_def exists_path_def split: option.splits)
  with assms show ?thesis
    by (simp add: lookup_value_def Let_def and_then_def split: option.splits)
qed

text \<open>
  Claim C5. \<^verbatim>\<open>read_boundary_condition\<close> never lets an exception escape, and it
  returns the caller's fallback when neither \<^verbatim>\<open>0.orig/<field>\<close> nor
  \<^verbatim>\<open>0/<field>\<close> exists, when the patch is not a key of \<^verbatim>\<open>boundaryField\<close>, and
  when the patch has neither the key \<^verbatim>\<open>value\<close> nor the key \<^verbatim>\<open>inletValue\<close>;
  \<^verbatim>\<open>value\<close> is consulted before \<^verbatim>\<open>inletValue\<close>; and whatever the body of the
  \<^verbatim>\<open>try\<close> raises becomes the fallback.
\<close>

theorem read_boundary_condition_lenient:
  "(\<exists>r. read_boundary_condition env d f p fb = Inr r) \<and>
   (\<not> exists_path d [''0.orig'', f] \<and> \<not> exists_path d [''0'', f] \<longrightarrow>
      read_boundary_condition env d f p fb = Inr (Some fb)) \<and>
   (\<forall>bf. foam_getitem d (field_file d f) ''boundaryField'' = Inr (PyDict bf) \<and>
      map_of bf p = None \<longrightarrow>
      read_boundary_condition env d f p fb = Inr (Some fb)) \<and>
   (\<forall>bf pd. foam_getitem d (field_file d f) ''boundaryField'' = Inr (PyDict bf) \<and>
      map_of bf p = Some (PyDict pd) \<and>
      map_of pd ''value'' = None \<and> map_of pd ''inletValue'' = None \<longrightarrow>
      read_boundary_condition env d f p fb = Inr (Some fb)) \<and>
   (\<forall>bf pd v. foam_getitem d (field_file d f) ''boundaryField'' = Inr (PyDict bf) \<and>
      map_of bf p = Some (PyDict pd) \<and> map_of pd ''value'' = Some v \<longrightarrow>
      lookup_value d f p = Inr (Some v)) \<and>
   (\<forall>bf pd v. foam_getitem d (field_file d f) ''boundaryField'' = Inr (PyDict bf) \<and>
      map_of bf p = Some (PyDict pd) \<and>
      map_of pd ''value'' = None \<and> map_of pd ''inletValue'' = Some v \<longrightarrow>
      lookup_value d f p = Inr (Some v)) \<and>
   (\<forall>e. read_boundary_condition_try env d f p fb = Inl e \<longrightarrow>
      read_boundary_condition env d f p fb = Inr (Some fb))"
proof (intro conjI allI impI)
  show "\<exists>r. read_boundary_condition env d f p fb = Inr r"
    by (rule read_boundary_condition_total)
next
  assume "\<not> exists_path d [''0.orig'', f] \<and> \<not> exists_path d [''0'', f]"
  then have "lookup_value d f p = Inr None"
    by (simp add: lookup_value_def field_file_def)
  then show "read_boundary_condition env d f p fb = Inr (Some fb)"
    by (simp add: read_boundary_condition_cases read_boundary_condition_try_def and_then_def)
next
  fix bf
  assume "foam_getitem d (field_file d f) ''boundaryField'' = Inr (PyDict bf) \<and> map_of bf p = None"
  then have "lookup_value d f p = Inr None"
    by (simp add: lookup_value_dict)
  then show "read_boundary_condition env d f p fb = Inr (Some fb)"
    by (simp add: read_boundary_condition_cases read_boundary_condition_try_def and_then_def)
next
  fix bf pd
  assume "foam_getitem d (field_file d f) ''boundaryField'' = Inr (PyDict bf) \<and>
      map_of bf p = Some (PyDict pd) \<and>
      map_of pd ''value'' = None \<and> map_of pd ''inletValue'' = None"
  then have "lookup_value d f p = Inr None"
    by (simp add: lookup_value_dict and_then_def)
  then show "read_boundary_condition env d f p fb = Inr (Some fb)"
    by (simp add: read_boundary_condition_cases read_boundary_condition_try_def and_then_def)
next
  fix bf pd v
  assume "foam_getitem d (field_file d f) ''boundaryField'' = Inr (PyDict bf) \<and>
      map_of bf p = Some (PyDict pd) \<and> map_of pd ''value'' = Some v"
  then show "lookup_value d f p = Inr (Some v)"
    by (simp add: lookup_value_dict and_then_def)
next
  fix bf pd v
  assume "foam_getitem d (field_file d f) ''boundaryField'' = Inr (PyDict bf) \<and>
      map_of bf p = Some (PyDict pd) \<and>
      map_of pd ''value'' = None \<and> map_of pd ''inletValue'' = Some v"
  then show "lookup_value d f p = Inr (Some v)"
    by (simp add: lookup_value_dict and_then_def)
next
  fix e
  assume "read_boundary_condition_try env d f p fb = Inl e"
  then show "read_boundary_condition env d f p fb = Inr (Some fb)"
    by (simp add: read_boundary_condition_cases)
qed

lemma foam_getitem_dir_of:
  "foam_getitem (dir_of f ps) (field_file (dir_of f ps) f) ''boundaryField'' = Inr (PyDict ps)"
  by (simp add: foam_getitem_def field_file_def dir_of_def exists_path_def)

theorem read_boundary_condition_lenient_witness:
  "read_boundary_condition env0 (\<lambda>p. None) ''T'' ''inletAir'' 300 = Inr (Some 300) \<and>
   read_boundary_condition env0 (dir_of ''T'' [(''outlet'', PyDict [])]) ''T'' ''inletAir'' 300
     = Inr (Some 300) \<and>
   read_boundary_condition env0
     (dir_of ''T'' [(''inletAir'', PyDict [(''type'', PyStr ''zeroGradient'')])])
     ''T'' ''inletAir'' 300 = Inr (Some 300) \<and>
   lookup_value
     (dir_of ''T'' [(''inletAir'', PyDict [(''inletValue'', PyNum 350), (''value'', PyNum 320)])])
     ''T'' ''inletAir'' = Inr (Some (PyNum 320)) \<and>
   read_boundary_condition env0 (dir_of ''T'' [(''inletAir'', PyNum 1)]) ''T'' ''inletAir'' 300
     = Inr (Some 300)"
proof (intro conjI)
  show "read_boundary_condition env0 (\<lambda>p. None) ''T'' ''inletAir'' 300 = Inr (Some 300)"
    using read_boundary_condition_lenient [of env0 "\<lambda>p. None" "''T''" "''inletAir''" 300]
    by (simp add: exists_path_def)
next
  show "read_boundary_condition env0 (dir_of ''T'' [(''outlet'', PyDict [])]) ''T'' ''inletAir'' 300
     = Inr (Some 300)"
    using read_boundary_condition_lenient
      [of env0 "dir_of ''T'' [(''outlet'', PyDict [])]" "''T''" "''inletAir''" 300]
    by (simp add: foam_getitem_dir_of)
next
  show "read_boundary_condition env0
     (dir_of ''T'' [(''inletAir'', PyDict [(''type'', PyStr ''zeroGradient'')])])
     ''T'' ''inletAir'' 300 = Inr (Some 300)"
    using read_boundary_condition_lenient
      [of env0 "dir_of ''T'' [(''inletAir'', PyDict [(''type'', PyStr ''zeroGradient'')])]"
          "''T''" "''inletAir''" 300]
    by (simp add: foam_getitem_dir_of)
next
  show "lookup_value
     (dir_of ''T'' [(''inletAir'', PyDict [(''inletValue'', PyNum 350), (''value'', PyNum 320)])])
     ''T'' ''inletAir'' = Inr (Some (PyNum 320))"
    using read_boundary_condition_lenient
      [of env0 "dir_of ''T'' [(''inletAir'', PyDict [(''inletValue'', PyNum 350), (''value'', PyNum 320)])]"
          "''T''" "''inletAir''" 300]
    by (simp add: foam_getitem_dir_of)
next
  have "read_boundary_condition_try env0 (dir_of ''T'' [(''inletAir'', PyNum 1)]) ''T'' ''inletAir'' 300
      = Inl TypeError"
    by (simp add: read_boundary_condition_try_def lookup_value_dict [OF foam_getitem_dir_of]
        and_then_def)
  then show "read_boundary_condition env0 (dir_of ''T'' [(''inletAir'', PyNum 1)]) ''T'' ''inletAir'' 300
     = Inr (Some 300)"
    using read_boundary_condition_lenient
      [of env0 "dir_of ''T'' [(''inletAir'', PyNum 1)]" "''T''" "''inletAir''" 300]
    by simp
qed

section \<open>The sample case evaluated\<close>

lemma locate_combustor:
  "locate_outlet (combustor ch4 area interior T_range) = Inr (DataSet (outlet_data ch4 area))"
  by (simp add: locate_outlet_def combustor_def lower_def lower_char_def and_then_def
      block_name_lower_def)

lemma integrate_outlet_data:
  "integrate_outlet (DataSet (outlet_data ch4 area)) = Inr (ch4, area)"
  by (simp add: integrate_outlet_def outlet_data_def get_array_def)

lemma get_inlet_conditions_total:
  "\<exists>ic. get_inlet_conditions env d = Inr ic"
  using read_boundary_condition_total [of env d "''CH4''" "''inletFuel''" "0.1561"]
    read_boundary_condition_total [of env d "''T''" "''inletAir''" "300.0"]
  by (auto simp: get_inlet_conditions_def and_then_def)

lemma inlet_dir_of:
  "get_inlet_conditions env0
     (dir_of ''CH4'' [(''inletFuel'', PyDict [(''type'', PyStr ''fixedValue''), (''value'', PyNum 0.4)])])
    = Inr \<lparr>CH4_inlet = Some 0.4, T_inlet = Some 300\<rparr>"
  by (simp add: get_inlet_conditions_def read_boundary_condition_def read_boundary_condition_try_def
     lookup_value_def field_file_def exists_path_def dir_of_def env0_def foam_getitem_def and_then_def
     uniform_value_def)

section \<open>Vector and empty boundary values\<close>

lemma read_boundary_condition_of_lookup:
  assumes "lookup_value d f p = Inr (Some v)"
  shows "read_boundary_condition env d f p fb =
     (if \<not> FOAMLIB_AVAILABLE env then Inr (Some fb)
      else case uniform_value env v of Inl e \<Rightarrow> Inr (Some fb) | Inr r \<Rightarrow> Inr r)"
  using assms
  by (simp add: read_boundary_condition_cases read_boundary_condition_try_def and_then_def)

lemma py_float_many:
  assumes "is_iterable_non_str v" "py_len v = Inr n" "2 \<le> n"
  shows "py_float env v = Inl TypeError"
proof (cases v)
  case (PyArray xs)
  with assms have "2 \<le> length xs" by simp
  then obtain x y zs where "xs = x # y # zs"
    by (cases xs; cases "tl xs") auto
  with PyArray show ?thesis by simp
qed (use assms in simp_all)

text \<open>
  Claim C8. When the lookup resolves to an iterable that is not a string and has two or
  more components, \<^verbatim>\<open>float(value)\<close> of the whole value raises, the handler absorbs
  the exception, and \<^verbatim>\<open>read_boundary_condition\<close> returns the caller's fallback.
\<close>

theorem multi_component_value_gives_fallback:
  assumes "lookup_value d f p = Inr (Some v)"
    and "is_iterable_non_str v" and "py_len v = Inr n" and "2 \<le> n"
  shows "py_float env v = Inl TypeError \<and>
         uniform_value env v = Inl TypeError \<and>
         read_boundary_condition env d f p fb = Inr (Some fb)"
proof -
  have fl: "py_float env v = Inl TypeError"
    using assms(2-4) by (rule py_float_many)
  have uv: "uniform_value env v = Inl TypeError"
    using assms(2-4) fl by (simp add: uniform_value_def and_then_def)
  show ?thesis
    using fl uv by (simp add: read_boundary_condition_of_lookup [OF assms(1)])
qed

lemma lookup_dir_of_value:
  "lookup_value (dir_of f [(p, PyDict [(''type'', PyStr ''fixedValue''), (''value'', v)])]) f p
     = Inr (Some v)"
  by (simp add: lookup_value_dict [OF foam_getitem_dir_of] and_then_def)

theorem multi_component_value_gives_fallback_witness:
  "lookup_value
     (dir_of ''U'' [(''inletAir'', PyDict [(''type'', PyStr ''fixedValue''),
        (''value'', PyArray [PyNum 1, PyNum 0, PyNum 0])])]) ''U'' ''inletAir''
     = Inr (Some (PyArray [PyNum 1, PyNum 0, PyNum 0])) \<and>
   py_len (PyArray [PyNum 1, PyNum 0, PyNum 0]) = Inr 3 \<and>
   read_boundary_condition env0
     (dir_of ''U'' [(''inletAir'', PyDict [(''type'', PyStr ''fixedValue''),
        (''value'', PyArray [PyNum 1, PyNum 0, PyNum 0])])]) ''U'' ''inletAir'' 300
     = Inr (Some 300)"
proof -
  have l: "lookup_value
     (dir_of ''U'' [(''inletAir'', PyDict [(''type'', PyStr ''fixedValue''),
        (''value'', PyArray [PyNum 1, PyNum 0, PyNum 0])])]) ''U'' ''inletAir''
     = Inr (Some (PyArray [PyNum 1, PyNum 0, PyNum 0]))"
    by (rule lookup_dir_of_value)
  have i: "is_iterable_non_str (PyArray [PyNum 1, PyNum 0, PyNum 0])" by simp
  have n: "py_len (PyArray [PyNum 1, PyNum 0, PyNum 0]) = Inr 3" by simp
  have b: "(2::nat) \<le> 3" by simp
  show ?thesis
    using multi_component_value_gives_fallback [OF l i n b, of env0 300] l n by simp
qed

text \<open>
  Claim C10. When the lookup resolves to an iterable that is not a string and has length
  zero, \<^verbatim>\<open>read_boundary_condition\<close> returns \<^verbatim>\<open>None\<close>: neither a float nor the
  caller's fallback.
\<close>

theorem empty_value_gives_None:
  assumes "FOAMLIB_AVAILABLE env"
    and "lookup_value d f p = Inr (Some v)"
    and "is_iterable_non_str v" and "py_len v = Inr 0"
  shows "read_boundary_condition env d f p fb = Inr None"
  using assms(1,3,4)
  by (simp add: read_boundary_condition_of_lookup [OF assms(2)] uniform_value_def and_then_def)

theorem empty_value_gives_None_witness:
  "FOAMLIB_AVAILABLE env0 \<and>
   lookup_value
     (dir_of ''T'' [(''inletAir'', PyDict [(''type'', PyStr ''fixedValue''), (''value'', PyList [])])])
     ''T'' ''inletAir'' = Inr (Some (PyList [])) \<and>
   py_len (PyList []) = Inr 0 \<and>
   read_boundary_condition env0
     (dir_of ''T'' [(''inletAir'', PyDict [(''type'', PyStr ''fixedValue''), (''value'', PyList [])])])
     ''T'' ''inletAir'' 300 = Inr None \<and>
   Inr None \<noteq> (Inr (Some 300) :: py_exn + real option)"
proof -
  have a: "FOAMLIB_AVAILABLE env0" by (simp add: env0_def)
  have l: "lookup_value
     (dir_of ''T'' [(''inletAir'', PyDict [(''type'', PyStr ''fixedValue''), (''value'', PyList [])])])
     ''T'' ''inletAir'' = Inr (Some (PyList []))"
    by (rule lookup_dir_of_value)
  have i: "is_iterable_non_str (PyList [])" by simp
  have n: "py_len (PyList []) = Inr 0" by simp
  show ?thesis
    using empty_value_gives_None [OF a l i n, of 300] a l n by simp
qed

section \<open>The formulas and the sentinels of the evaluators\<close>

lemma get_combustion_efficiency_reached:
  assumes "get_inlet_conditions env d = Inr ic"
    and "locate_outlet cr = Inr b" and "integrate_outlet b = Inr (I, A)"
  shows "get_combustion_efficiency env cr d = efficiency_of I A (CH4_inlet ic)"
  using assms by (simp add: get_combustion_efficiency_def and_then_def)

text \<open>
  Claim C1. With an integrated outlet fuel value \<open>I \<ge> 0\<close>, an outlet area \<open>A > 0\<close> and
  a fuel-inlet boundary value \<open>C > 0\<close>, \<^verbatim>\<open>get_combustion_efficiency\<close> returns
  \<open>1 - (I / A) / C\<close>, which is at most 1, is 1 when \<open>I = 0\<close>, and is 0.5 for
  \<open>I = 2\<close>, \<open>A = 10\<close>, \<open>C = 0.4\<close>.
\<close>

theorem combustion_efficiency_value:
  assumes "get_inlet_conditions env d = Inr ic" and "CH4_inlet ic = Some C"
    and "locate_outlet cr = Inr b" and "integrate_outlet b = Inr (I, A)"
    and "0 \<le> I" and "0 < A" and "0 < C"
  shows "get_combustion_efficiency env cr d = Inr (1 - (I / A) / C) \<and>
         1 - (I / A) / C \<le> 1 \<and>
         (I = 0 \<longrightarrow> get_combustion_efficiency env cr d = Inr 1) \<and>
         (I = 2 \<and> A = 10 \<and> C = 0.4 \<longrightarrow> get_combustion_efficiency env cr d = Inr 0.5)"
proof -
  have v: "get_combustion_efficiency env cr d = Inr (1 - (I / A) / C)"
    using assms(2,6,7)
    by (simp add: get_combustion_efficiency_reached [OF assms(1,3,4)] efficiency_of_def
        py_truediv_def and_then_def)
  have "0 \<le> (I / A) / C"
    using assms(5-7) by simp
  then have le: "1 - (I / A) / C \<le> 1" by simp
  show ?thesis using v le by auto
qed

theorem combustion_efficiency_value_witness:
  "get_combustion_efficiency env0 (combustor 2 10 [] None)
     (dir_of ''CH4'' [(''inletFuel'', PyDict [(''type'', PyStr ''fixedValue''), (''value'', PyNum 0.4)])])
     = Inr 0.5 \<and>
   get_combustion_efficiency env0 (combustor 0 10 [] None)
     (dir_of ''CH4'' [(''inletFuel'', PyDict [(''type'', PyStr ''fixedValue''), (''value'', PyNum 0.4)])])
     = Inr 1"
proof -
  have ic: "get_inlet_conditions env0
      (dir_of ''CH4'' [(''inletFuel'', PyDict [(''type'', PyStr ''fixedValue''), (''value'', PyNum 0.4)])])
     = Inr \<lparr>CH4_inlet = Some 0.4, T_inlet = Some 300\<rparr>"
    by (rule inlet_dir_of)
  have c: "CH4_inlet \<lparr>CH4_inlet = Some 0.4, T_inlet = Some 300\<rparr> = Some 0.4" by simp
  have p: "(0::real) \<le> 2" "(0::real) < 10" "(0::real) < 0.4" "(0::real) \<le> 0" by simp_all
  show ?thesis
    using combustion_efficiency_value
        [OF ic c locate_combustor integrate_outlet_data p(1) p(2) p(3), of "[]" None]
      combustion_efficiency_value
        [OF ic c locate_combustor integrate_outlet_data p(4) p(2) p(3), of "[]" None]
    by simp
qed

lemma get_pattern_factor_reached:
  assumes "interior_temperature cr = Inr (T_max, T_avg)"
    and "get_inlet_conditions env d = Inr ic"
  shows "get_pattern_factor env cr d =
     and_then (py_sub T_avg (T_inlet ic)) (\<lambda>denominator.
       if denominator \<le> 0 then Inr 999.0
       else py_truediv (T_max - T_avg) (Some denominator))"
  using assms by (simp add: get_pattern_factor_def and_then_def Let_def)


lemma get_temperature_rise_reached:
  assumes "interior_temperature cr = Inr (T_max, T_avg)"
    and "get_inlet_conditions env d = Inr ic"
  shows "get_temperature_rise_efficiency env cr d =
     and_then (py_sub T_max (T_inlet ic)) (\<lambda>denominator.
       if denominator \<le> 0 then Inr 0.0
       else and_then (py_sub T_avg (T_inlet ic)) (\<lambda>numerator.
              py_truediv numerator (Some denominator)))"
  using assms by (simp add: get_temperature_rise_efficiency_def and_then_def Let_def)

text \<open>
  Claim C3. \<^verbatim>\<open>get_temperature_rise_efficiency\<close> returns 0 when the maximum
  temperature is at most the inlet temperature, and \<open>(T_avg - T_in) / (T_max - T_in)\<close>
  otherwise; no division by zero is ever raised.
\<close>

theorem temperature_rise_policy:
  assumes "interior_temperature cr = Inr (T_max, T_avg)"
    and "get_inlet_conditions env d = Inr ic" and "T_inlet ic = Some T_in"
  shows "(T_max \<le> T_in \<longrightarrow> get_temperature_rise_efficiency env cr d = Inr 0) \<and>
         (\<not> T_max \<le> T_in \<longrightarrow>
            get_temperature_rise_efficiency env cr d = Inr ((T_avg - T_in) / (T_max - T_in))) \<and>
         get_temperature_rise_efficiency env cr d \<noteq> Inl ZeroDivisionError"
  using assms(3)
  by (simp add: get_temperature_rise_reached [OF assms(1,2)] py_sub_def py_truediv_def and_then_def)

lemma inlet_absent:
  "get_inlet_conditions env0 (\<lambda>p. None) = Inr \<lparr>CH4_inlet = Some 0.1561, T_inlet = Some 300\<rparr>"
  by (simp add: get_inlet_conditions_def read_boundary_condition_def
      read_boundary_condition_try_def lookup_value_def field_file_def exists_path_def env0_def
      and_then_def)

lemma interior_cold:
  "interior_temperature (combustor 2 10 [(''T'', 600), (''Volume'', 2)] (Some (300, 300)))
     = Inr (300, 300)"
  by (simp add: interior_temperature_def combustor_def py_truediv_def and_then_def)

lemma interior_hot:
  "interior_temperature (combustor 2 10 [(''T'', 1800), (''Volume'', 2)] (Some (300, 1500)))
     = Inr (1500, 900)"
  by (simp add: interior_temperature_def combustor_def py_truediv_def and_then_def)


theorem temperature_rise_policy_witness:
  "get_temperature_rise_efficiency env0
     (combustor 2 10 [(''T'', 600), (''Volume'', 2)] (Some (300, 300))) (\<lambda>p. None) = Inr 0 \<and>
   get_temperature_rise_efficiency env0
     (combustor 2 10 [(''T'', 1800), (''Volume'', 2)] (Some (300, 1500))) (\<lambda>p. None) = Inr 0.5"
proof -
  have t: "T_inlet \<lparr>CH4_inlet = Some 0.1561, T_inlet = Some 300\<rparr> = Some 300" by simp
  show ?thesis
    using temperature_rise_policy [OF interior_cold inlet_absent t]
      temperature_rise_policy [OF interior_hot inlet_absent t]
    by simp
qed

section \<open>What the evaluators raise\<close>

lemma block_name_lower_structural: "block_name_lower m = Inl e \<Longrightarrow> structural e"
  by (auto simp: block_name_lower_def structural_def split: meta_data.splits option.splits)

lemma find_outlet_sub_structural: "find_outlet_sub subs = Inl e \<Longrightarrow> structural e"
proof (induction subs)
  case Nil
  then show ?case by simp
next
  case (Cons a subs)
  obtain m sb where a: "a = (m, sb)" by (cases a)
  show ?case
  proof (cases "block_name_lower m")
    case (Inl e')
    with Cons.prems a show ?thesis
      by (auto simp: and_then_def dest: block_name_lower_structural)
  next
    case (Inr n)
    with Cons a show ?thesis
      by (auto simp: and_then_def split: if_splits)
  qed
qed

lemma find_outlet_block_structural:
  "find_outlet_block name children = Inl e \<Longrightarrow> structural e"
proof (induction children)
  case Nil
  then show ?case by simp
next
  case (Cons a children)
  obtain m blk where a: "a = (m, blk)" by (cases a)
  show ?case
  proof (cases "block_name_lower m")
    case (Inl e')
    with Cons.prems a show ?thesis
      by (auto simp: and_then_def dest: block_name_lower_structural)
  next
    case (Inr n)
    with Cons a show ?thesis
      by (auto simp: and_then_def split: if_splits option.splits vtk_object.splits sum.splits
          dest: find_outlet_sub_structural)
  qed
qed

lemma locate_outlet_structural: "locate_outlet cr = Inl e \<Longrightarrow> structural e"
  by (auto simp: locate_outlet_def Let_def and_then_def structural_def
      split: option.splits vtk_object.splits sum.splits
      dest!: find_outlet_block_structural)

lemma integrate_outlet_structural: "integrate_outlet b = Inl e \<Longrightarrow> structural e"
  by (auto simp: integrate_outlet_def Let_def structural_def
      split: option.splits vtk_object.splits)

lemma interior_temperature_structural: "interior_temperature cr = Inl e \<Longrightarrow> structural e"
  by (auto simp: interior_temperature_def Let_def structural_def py_truediv_def and_then_def
      split: option.splits if_splits)

lemma get_ch4_domain_average_structural:
  "get_ch4_domain_average env cr d = Inl e \<Longrightarrow> structural e"
  by (auto simp: get_ch4_domain_average_def Let_def structural_def py_truediv_def
      split: option.splits if_splits)

lemma get_pattern_factor_raises:
  assumes "get_pattern_factor env cr d = Inl e"
  shows "structural e \<or> e = TypeError"
proof (cases "interior_temperature cr")
  case (Inl e')
  with assms show ?thesis
    by (auto simp: get_pattern_factor_def and_then_def dest: interior_temperature_structural)
next
  case (Inr tt)
  obtain T_max T_avg where tt: "tt = (T_max, T_avg)" by (cases tt)
  obtain ic where ic: "get_inlet_conditions env d = Inr ic"
    using get_inlet_conditions_total by blast
  from assms show ?thesis
    unfolding get_pattern_factor_reached [OF Inr [unfolded tt] ic]
    by (auto simp: py_sub_def py_truediv_def and_then_def split: option.splits if_splits)
qed

lemma get_temperature_rise_raises:
  assumes "get_temperature_rise_efficiency env cr d = Inl e"
  shows "structural e \<or> e = TypeError"
proof (cases "interior_temperature cr")
  case (Inl e')
  with assms show ?thesis
    by (auto simp: get_temperature_rise_efficiency_def and_then_def
        dest: interior_temperature_structural)
next
  case (Inr tt)
  obtain T_max T_avg where tt: "tt = (T_max, T_avg)" by (cases tt)
  obtain ic where ic: "get_inlet_conditions env d = Inr ic"
    using get_inlet_conditions_total by blast
  from assms show ?thesis
    unfolding get_temperature_rise_reached [OF Inr [unfolded tt] ic]
    by (auto simp: py_sub_def py_truediv_def and_then_def split: option.splits if_splits)
qed

lemma efficiency_of_raises:
  "efficiency_of I A c = Inl e \<Longrightarrow>
     e = ValueError (InvalidOutletArea A) \<and> A \<le> 0 \<or>
     e = TypeError \<and> c = None \<and> 0 < A \<or>
     e = ZeroDivisionError \<and> c = Some 0 \<and> 0 < A"
  by (auto simp: efficiency_of_def py_truediv_def and_then_def split: option.splits if_splits)

lemma get_combustion_efficiency_raises:
  assumes "get_combustion_efficiency env cr d = Inl e"
  shows "structural e \<or> e = TypeError \<or>
         (e = ZeroDivisionError \<and>
          (\<exists>ic. get_inlet_conditions env d = Inr ic \<and> CH4_inlet ic = Some 0))"
proof -
  obtain ic where ic: "get_inlet_conditions env d = Inr ic"
    using get_inlet_conditions_total by blast
  show ?thesis
  proof (cases "locate_outlet cr")
    case (Inl e')
    with assms ic show ?thesis
      by (auto simp: get_combustion_efficiency_def and_then_def dest: locate_outlet_structural)
  next
    case (Inr b)
    show ?thesis
    proof (cases "integrate_outlet b")
      case (Inl e')
      with assms ic Inr show ?thesis
        by (auto simp: get_combustion_efficiency_def and_then_def
            dest: integrate_outlet_structural)
    next
      case r: (Inr ia)
      obtain I A where ia: "ia = (I, A)" by (cases ia)
      from assms have "efficiency_of I A (CH4_inlet ic) = Inl e"
        by (simp add: get_combustion_efficiency_reached [OF ic Inr r [unfolded ia]])
      from efficiency_of_raises [OF this] ic show ?thesis
        by (auto simp: structural_def)
    qed
  qed
qed

text \<open>
  Claim C4. In each of the four evaluators, an integrated measure (outlet area, domain
  volume) that is not positive ends the evaluation with the error of the guard, which
  stands before the division by the measure; the three evaluators over the interior never
  raise a division by zero, and the outlet evaluator does so only for a fuel-inlet value
  of 0, never for its area.
\<close>

theorem non_positive_measure_raises:
  "(\<forall>b I A. locate_outlet cr = Inr b \<and> integrate_outlet b = Inr (I, A) \<and> A \<le> 0 \<longrightarrow>
      get_combustion_efficiency env cr d = Inl (ValueError (InvalidOutletArea A))) \<and>
   (\<forall>I V. int_cell (IntegrateVariables cr) ''CH4'' = Some I \<and>
      int_cell (IntegrateVariables cr) ''Volume'' = Some V \<and> V \<le> 0 \<longrightarrow>
      get_ch4_domain_average env cr d = Inl (ValueError (InvalidVolume V))) \<and>
   (\<forall>r TI V. CellDataInformation cr ''T'' = Some r \<and>
      int_cell (IntegrateVariables cr) ''T'' = Some TI \<and>
      int_cell (IntegrateVariables cr) ''Volume'' = Some V \<and> V \<le> 0 \<longrightarrow>
      get_pattern_factor env cr d = Inl (ValueError (InvalidVolume V)) \<and>
      get_temperature_rise_efficiency env cr d = Inl (ValueError (InvalidVolume V))) \<and>
   get_ch4_domain_average env cr d \<noteq> Inl ZeroDivisionError \<and>
   get_pattern_factor env cr d \<noteq> Inl ZeroDivisionError \<and>
   get_temperature_rise_efficiency env cr d \<noteq> Inl ZeroDivisionError \<and>
   (get_combustion_efficiency env cr d = Inl ZeroDivisionError \<longrightarrow>
      (\<exists>ic. get_inlet_conditions env d = Inr ic \<and> CH4_inlet ic = Some 0))"
proof (intro conjI allI impI)
  fix b I A
  assume h: "locate_outlet cr = Inr b \<and> integrate_outlet b = Inr (I, A) \<and> A \<le> 0"
  obtain ic where ic: "get_inlet_conditions env d = Inr ic"
    using get_inlet_conditions_total by blast
  from h show "get_combustion_efficiency env cr d = Inl (ValueError (InvalidOutletArea A))"
    by (simp add: get_combustion_efficiency_reached [OF ic] efficiency_of_def)
next
  fix I V
  assume "int_cell (IntegrateVariables cr) ''CH4'' = Some I \<and>
      int_cell (IntegrateVariables cr) ''Volume'' = Some V \<and> V \<le> 0"
  then show "get_ch4_domain_average env cr d = Inl (ValueError (InvalidVolume V))"
    by (simp add: get_ch4_domain_average_def)
next
  fix r TI V
  assume h: "CellDataInformation cr ''T'' = Some r \<and>
      int_cell (IntegrateVariables cr) ''T'' = Some TI \<and>
      int_cell (IntegrateVariables cr) ''Volume'' = Some V \<and> V \<le> 0"
  then have i: "interior_temperature cr = Inl (ValueError (InvalidVolume V))"
    by (simp add: interior_temperature_def)
  show "get_pattern_factor env cr d = Inl (ValueError (InvalidVolume V))"
    by (simp add: get_pattern_factor_def i and_then_def)
  show "get_temperature_rise_efficiency env cr d = Inl (ValueError (InvalidVolume V))"
    by (simp add: get_temperature_rise_efficiency_def i and_then_def)
next
  show "get_ch4_domain_average env cr d \<noteq> Inl ZeroDivisionError"
    using get_ch4_domain_average_structural [of env cr d ZeroDivisionError]
    by (auto simp: structural_def)
next
  show "get_pattern_factor env cr d \<noteq> Inl ZeroDivisionError"
    using get_pattern_factor_raises [of env cr d ZeroDivisionError]
    by (auto simp: structural_def)
next
  show "get_temperature_rise_efficiency env cr d \<noteq> Inl ZeroDivisionError"
    using get_temperature_rise_raises [of env cr d ZeroDivisionError]
    by (auto simp: structural_def)
next
  assume "get_combustion_efficiency env cr d = Inl ZeroDivisionError"
  from get_combustion_efficiency_raises [OF this]
  show "\<exists>ic. get_inlet_conditions env d = Inr ic \<and> CH4_inlet ic = Some 0"
    by (auto simp: structural_def)
qed

theorem non_positive_measure_raises_witness:
  "get_combustion_efficiency env0 (combustor 2 0 [] None) (\<lambda>p. None)
     = Inl (ValueError (InvalidOutletArea 0)) \<and>
   get_ch4_domain_average env0 (combustor 2 10 [(''CH4'', 1), (''Volume'', - 3)] None) (\<lambda>p. None)
     = Inl (ValueError (InvalidVolume (- 3))) \<and>
   get_pattern_factor env0
     (combustor 2 10 [(''T'', 600), (''Volume'', 0)] (Some (300, 300))) (\<lambda>p. None)
     = Inl (ValueError (InvalidVolume 0)) \<and>
   get_temperature_rise_efficiency env0
     (combustor 2 10 [(''T'', 600), (''Volume'', 0)] (Some (300, 300))) (\<lambda>p. None)
     = Inl (ValueError (InvalidVolume 0))"
proof (intro conjI)
  show "get_combustion_efficiency env0 (combustor 2 0 [] None) (\<lambda>p. None)
     = Inl (ValueError (InvalidOutletArea 0))"
    using non_positive_measure_raises [of "combustor 2 0 [] None" env0 "\<lambda>p. None"]
      locate_combustor [of 2 0 "[]" None] integrate_outlet_data [of 2 0]
    by simp
next
  show "get_ch4_domain_average env0 (combustor 2 10 [(''CH4'', 1), (''Volume'', - 3)] None)
     (\<lambda>p. None) = Inl (ValueError (InvalidVolume (- 3)))"
    using non_positive_measure_raises
      [of "combustor 2 10 [(''CH4'', 1), (''Volume'', - 3)] None" env0 "\<lambda>p. None"]
    by (simp add: combustor_def)
next
  show "get_pattern_factor env0
     (combustor 2 10 [(''T'', 600), (''Volume'', 0)] (Some (300, 300))) (\<lambda>p. None)
     = Inl (ValueError (InvalidVolume 0))"
    using non_positive_measure_raises
      [of "combustor 2 10 [(''T'', 600), (''Volume'', 0)] (Some (300, 300))" env0 "\<lambda>p. None"]
    by (simp add: combustor_def)
next
  show "get_temperature_rise_efficiency env0
     (combustor 2 10 [(''T'', 600), (''Volume'', 0)] (Some (300, 300))) (\<lambda>p. None)
     = Inl (ValueError (InvalidVolume 0))"
    using non_positive_measure_raises
      [of "combustor 2 10 [(''T'', 600), (''Volume'', 0)] (Some (300, 300))" env0 "\<lambda>p. None"]
    by (simp add: combustor_def)
qed

text \<open>
  Claim C9. The division by the fuel-inlet boundary value is unguarded: when that value
  is 0, \<^verbatim>\<open>get_combustion_efficiency\<close> returns no scalar, and once the outlet has been
  found and integrated over a positive area it raises \<^verbatim>\<open>ZeroDivisionError\<close>; with
  any other number it returns.
\<close>

theorem zero_inlet_fuel_divides_by_zero:
  assumes "get_inlet_conditions env d = Inr ic"
  shows "(CH4_inlet ic = Some 0 \<longrightarrow> (\<forall>v. get_combustion_efficiency env cr d \<noteq> Inr v)) \<and>
         (\<forall>b I A. CH4_inlet ic = Some 0 \<and> locate_outlet cr = Inr b \<and>
            integrate_outlet b = Inr (I, A) \<and> 0 < A \<longrightarrow>
            get_combustion_efficiency env cr d = Inl ZeroDivisionError) \<and>
         (\<forall>b I A C. CH4_inlet ic = Some C \<and> C \<noteq> 0 \<and> locate_outlet cr = Inr b \<and>
            integrate_outlet b = Inr (I, A) \<and> 0 < A \<longrightarrow>
            get_combustion_efficiency env cr d = Inr (1 - (I / A) / C))"
proof (intro conjI allI impI)
  fix v
  assume z: "CH4_inlet ic = Some 0"
  show "get_combustion_efficiency env cr d \<noteq> Inr v"
  proof (cases "locate_outlet cr")
    case (Inl e)
    with assms show ?thesis
      by (simp add: get_combustion_efficiency_def and_then_def)
  next
    case (Inr b)
    show ?thesis
    proof (cases "integrate_outlet b")
      case (Inl e)
      with assms Inr show ?thesis
        by (simp add: get_combustion_efficiency_def and_then_def)
    next
      case r: (Inr ia)
      obtain I A where ia: "ia = (I, A)" by (cases ia)
      show ?thesis
        using z
        by (simp add: get_combustion_efficiency_reached [OF assms Inr r [unfolded ia]]
            efficiency_of_def py_truediv_def and_then_def)
    qed
  qed
next
  fix b I A
  assume "CH4_inlet ic = Some 0 \<and> locate_outlet cr = Inr b \<and>
            integrate_outlet b = Inr (I, A) \<and> 0 < A"
  then show "get_combustion_efficiency env cr d = Inl ZeroDivisionError"
    by (simp add: get_combustion_efficiency_reached [OF assms]
        efficiency_of_def py_truediv_def and_then_def)
next
  fix b I A C
  assume "CH4_inlet ic = Some C \<and> C \<noteq> 0 \<and> locate_outlet cr = Inr b \<and>
            integrate_outlet b = Inr (I, A) \<and> 0 < A"
  then show "get_combustion_efficiency env cr d = Inr (1 - (I / A) / C)"
    by (simp add: get_combustion_efficiency_reached [OF assms]
        efficiency_of_def py_truediv_def and_then_def)
qed

lemma inlet_zero:
  "get_inlet_conditions env0
     (dir_of ''CH4'' [(''inletFuel'', PyDict [(''type'', PyStr ''fixedValue''), (''value'', PyNum 0)])])
    = Inr \<lparr>CH4_inlet = Some 0, T_inlet = Some 300\<rparr>"
  by (simp add: get_inlet_conditions_def read_boundary_condition_def read_boundary_condition_try_def
     lookup_value_def field_file_def exists_path_def dir_of_def env0_def foam_getitem_def and_then_def
     uniform_value_def)

theorem zero_inlet_fuel_divides_by_zero_witness:
  "get_inlet_conditions env0
     (dir_of ''CH4'' [(''inletFuel'', PyDict [(''type'', PyStr ''fixedValue''), (''value'', PyNum 0)])])
    = Inr \<lparr>CH4_inlet = Some 0, T_inlet = Some 300\<rparr> \<and>
   get_combustion_efficiency env0 (combustor 2 10 [] None)
     (dir_of ''CH4'' [(''inletFuel'', PyDict [(''type'', PyStr ''fixedValue''), (''value'', PyNum 0)])])
    = Inl ZeroDivisionError"
  using zero_inlet_fuel_divides_by_zero [OF inlet_zero, of "combustor 2 10 [] None"]
    inlet_zero locate_combustor [of 2 10 "[]" None] integrate_outlet_data [of 2 10]
  by simp

section \<open>Selecting the time\<close>






section \<open>Failures of the entry point\<close>

lemma structural_is_Exception: "structural e \<Longrightarrow> is_Exception e"
  by (auto simp: structural_def)

lemma metric_raises:
  assumes "map_of metrics name = Some metric" and "metric env cr d = Inl e"
  shows "is_Exception e"
proof -
  from assms(1) consider "metric = get_combustion_efficiency" | "metric = get_ch4_domain_average"
    | "metric = get_pattern_factor" | "metric = get_temperature_rise_efficiency"
    by (auto simp: metrics_def split: if_splits)
  then show ?thesis
  proof cases
    case 1
    with assms(2) get_combustion_efficiency_raises [of env cr d e] show ?thesis
      by (auto dest: structural_is_Exception)
  next
    case 2
    with assms(2) get_ch4_domain_average_structural [of env cr d e] show ?thesis
      by (auto dest: structural_is_Exception)
  next
    case 3
    with assms(2) get_pattern_factor_raises [of env cr d e] show ?thesis
      by (auto dest: structural_is_Exception)
  next
    case 4
    with assms(2) get_temperature_rise_raises [of env cr d e] show ?thesis
      by (auto dest: structural_is_Exception)
  qed
qed

lemma parse_time_arg_raises:
  assumes "parse_time_arg env args = Inl e"
  shows "e = SystemExit 1 \<or> is_Exception e"
proof -
  have "\<And>s. py_float env (PyStr s) = Inl e \<Longrightarrow> is_Exception e"
    by (auto split: option.splits)
  with assms show ?thesis
    by (auto simp: parse_time_arg_def Let_def and_then_def
        split: if_splits list.splits sum.splits)
qed

lemma select_time_raises: "select_time ts rt = Inl e \<Longrightarrow> is_Exception e"
  by (auto simp: select_time_def py_min_key_def and_then_def
      split: option.splits list.splits if_splits)

lemma main_try_failure:
  assumes "main_try w = (out, Inl e)"
  shows "stdout out = [] \<and> (e = SystemExit 1 \<or> is_Exception e)"
proof (cases "length (argv w) < 3 \<or> length (argv w) > 4")
  case True
  with assms show ?thesis
    by (auto simp: main_try_def Let_def quiet_def)
next
  case False
  note n = this
  show ?thesis
  proof (cases "parse_time_arg (interpreter w) (argv w)")
    case (Inl e')
    with assms n have "out = quiet False" "e = e'"
      by (auto simp: main_try_def Let_def)
    with parse_time_arg_raises [OF Inl] show ?thesis
      by (simp add: quiet_def)
  next
    case (Inr rt)
    show ?thesis
    proof (cases "map_of metrics (argv w ! 2)")
      case None
      with assms n Inr show ?thesis
        by (auto simp: main_try_def Let_def quiet_def split: if_splits)
    next
      case (Some metric)
      show ?thesis
      proof (cases "OpenFOAMReader w (processor_dirs w \<noteq> [])")
        case None
        with assms n Inr Some show ?thesis
          by (auto simp: main_try_def Let_def quiet_def split: if_splits)
      next
        case r: (Some case_reader)
        show ?thesis
        proof (cases "select_time (TimestepValues case_reader) rt")
          case (Inl e')
          with assms n Inr Some r select_time_raises [OF Inl] show ?thesis
            by (auto simp: main_try_def Let_def quiet_def split: if_splits)
        next
          case s: (Inr sel)
          obtain use_time warning where sel: "sel = (use_time, warning)" by (cases sel)
          show ?thesis
          proof (cases "metric (interpreter w) (UpdatePipeline case_reader use_time) (case_files w)")
            case (Inl e')
            with assms n Inr Some r s sel metric_raises [OF Some Inl] show ?thesis
              by (auto simp: main_try_def Let_def quiet_def split: if_splits)
          next
            case m: (Inr v)
            with assms n Inr Some r s sel show ?thesis
              by (auto simp: main_try_def Let_def quiet_def split: if_splits)
          qed
        qed
      qed
    qed
  qed
qed

text \<open>
  Claim C7, amended. Every failure of the entry point exits with code 1 and leaves
  standard output empty. When the failure is an exception that reaches the handler,
  standard error ends with the error line and the trace of that exception; on a wrong
  number of arguments standard error holds the three usage lines and nothing else.
\<close>

theorem main_failure:
  assumes "snd (main_try w) = Inl e"
  shows "exit_code (main w) = 1 \<and> stdout (main w) = [] \<and>
         (is_Exception e \<longrightarrow>
            (\<exists>pre. stderr (main w) = pre @ [ErrorLine e, TracebackHeader, Traceback e])) \<and>
         (length (argv w) < 3 \<or> 4 < length (argv w) \<longrightarrow>
            stderr (main w) = [UsageLine, AvailableMetricsLine, OptionalTimeLine])"
proof -
  obtain out where mt: "main_try w = (out, Inl e)"
    using assms by (cases "main_try w") auto
  from main_try_failure [OF mt]
  have so: "stdout out = []" and e: "e = SystemExit 1 \<or> is_Exception e" by simp_all
  have code: "exit_code (main w) = 1"
    using e by (cases e) (auto simp: main_def mt)
  have outp: "stdout (main w) = []"
    using so by (cases e) (auto simp: main_def mt)
  have trace: "is_Exception e \<longrightarrow>
      (\<exists>pre. stderr (main w) = pre @ [ErrorLine e, TracebackHeader, Traceback e])"
    by (cases e) (auto simp: main_def mt)
  have usage: "length (argv w) < 3 \<or> 4 < length (argv w) \<longrightarrow>
      stderr (main w) = [UsageLine, AvailableMetricsLine, OptionalTimeLine]"
    using mt by (auto simp: main_def main_try_def Let_def quiet_def)
  from code outp trace usage show ?thesis by blast
qed

lemma main_try_bad_time:
  "main_try (cli [''compute_metric.py'', ''case'', ''pattern_factor'', ''--time=abc''])
     = (quiet False, Inl (ValueError (CouldNotConvertToFloat ''abc'')))"
  by (simp add: main_try_def cli_def parse_time_arg_def env0_def and_then_def)

theorem main_failure_witness:
  "snd (main_try (cli [''compute_metric.py'', ''case'', ''pattern_factor'', ''--time=abc'']))
     = Inl (ValueError (CouldNotConvertToFloat ''abc'')) \<and>
   exit_code (main (cli [''compute_metric.py'', ''case'', ''pattern_factor'', ''--time=abc''])) = 1 \<and>
   stdout (main (cli [''compute_metric.py'', ''case'', ''pattern_factor'', ''--time=abc''])) = [] \<and>
   stderr (main (cli [''compute_metric.py'', ''case'', ''pattern_factor'', ''--time=abc'']))
     = [ErrorLine (ValueError (CouldNotConvertToFloat ''abc'')), TracebackHeader,
        Traceback (ValueError (CouldNotConvertToFloat ''abc''))]"
proof -
  have f: "snd (main_try (cli [''compute_metric.py'', ''case'', ''pattern_factor'', ''--time=abc'']))
     = Inl (ValueError (CouldNotConvertToFloat ''abc''))"
    by (simp add: main_try_bad_time)
  have s: "stderr (main (cli [''compute_metric.py'', ''case'', ''pattern_factor'', ''--time=abc'']))
     = [ErrorLine (ValueError (CouldNotConvertToFloat ''abc'')), TracebackHeader,
        Traceback (ValueError (CouldNotConvertToFloat ''abc''))]"
    by (simp add: main_def main_try_bad_time quiet_def)
  show ?thesis
    using main_failure [OF f] f s by simp
qed

text \<open>
  Claim C7 as stated fails: with a wrong number of arguments the run fails with code 1
  and standard error holds the usage lines only, no trace.
\<close>

theorem usage_error_has_no_trace:
  "exit_code (main (cli [''compute_metric.py'', ''case''])) = 1 \<and>
   stderr (main (cli [''compute_metric.py'', ''case'']))
     = [UsageLine, AvailableMetricsLine, OptionalTimeLine]"
  by (simp add: main_def main_try_def cli_def quiet_def)

text \<open>
  A fourth argument that does not start with \<^verbatim>\<open>--time=\<close> ends the run with
  code 1 and nothing at all on standard error.
\<close>

lemma malformed_time_argument_is_silent:
  "exit_code (main (cli [''compute_metric.py'', ''case'', ''pattern_factor'', ''--time'']))
     = 1 \<and>
   stderr (main (cli [''compute_metric.py'', ''case'', ''pattern_factor'', ''--time''])) = []"
  by (simp add: main_def main_try_def cli_def parse_time_arg_def quiet_def)

end
